theory Spec2Isabelle
  imports Complex_Main "HOL-Library.Word" "HOL-Library.Sublist"
begin

section \<open>JavaScript values used by the request helpers and the QR panel\<close>

text \<open>
  A JavaScript string is a sequence of 16-bit code units. String literals of the source
  are ASCII; \<open>js\<close> turns an Isabelle literal into the code units of the same text.
\<close>

type_synonym code_unit = "16 word"
type_synonym js_string = "code_unit list"

definition js :: "string \<Rightarrow> js_string" where
  "js s = map of_char s"

text \<open>The exceptions that the modelled code can raise.\<close>

datatype js_error = URIError | TypeError | Rejected

text \<open>
  Truthiness of a value of type \<open>string | null | undefined\<close>: \<open>null\<close>, \<open>undefined\<close>
  (both \<open>None\<close>) and the empty string are falsy, every other string is truthy.
\<close>

fun truthy :: "js_string option \<Rightarrow> bool" where
  "truthy None = False"
| "truthy (Some s) = (s \<noteq> [])"

subsection \<open>\<open>String.prototype.split\<close> with a one-character separator\<close>

text \<open>
  \<open>s.split(sep)\<close> cuts \<open>s\<close> at every occurrence of \<open>sep\<close>; the pieces between two
  separators, before the first and after the last one are all kept, empty or not, so the
  result is never the empty array.
\<close>

fun split :: "code_unit \<Rightarrow> js_string \<Rightarrow> js_string list" where
  "split sep [] = [[]]"
| "split sep (c # cs) =
     (if c = sep then [] # split sep cs
      else (case split sep cs of
              [] \<Rightarrow> [[c]]
            | p # ps \<Rightarrow> (c # p) # ps))"

text \<open>Array indexing: an index past the end reads \<open>undefined\<close>.\<close>

fun index :: "'a list \<Rightarrow> nat \<Rightarrow> 'a option" where
  "index [] i = None"
| "index (x # xs) 0 = Some x"
| "index (x # xs) (Suc i) = index xs i"

subsection \<open>\<open>decodeURIComponent\<close>\<close>

text \<open>
  The built-in follows the \<open>Decode\<close> operation of ECMA-262 with an empty set of preserved
  escapes. A percent sign must be followed by two hexadecimal digits. An octet below 128
  is the code unit of that value. An octet with \<open>n\<close> leading one bits starts a UTF-8
  sequence of \<open>n\<close> octets, \<open>n\<close> being 2, 3 or 4, each further octet written as one more
  escape; the octets must be the UTF-8 encoding of a code point, which is appended in
  UTF-16. Everything else raises \<open>URIError\<close>.
\<close>

definition hex_digit :: "code_unit \<Rightarrow> nat option" where
  "hex_digit c =
     (if 0x30 \<le> c \<and> c \<le> 0x39 then Some (unat c - 0x30)
      else if 0x41 \<le> c \<and> c \<le> 0x46 then Some (unat c - 0x41 + 10)
      else if 0x61 \<le> c \<and> c \<le> 0x66 then Some (unat c - 0x61 + 10)
      else None)"

text \<open>\<open>ParseHexOctet\<close>: the octet written by the two code units at the front.\<close>

fun ParseHexOctet :: "js_string \<Rightarrow> nat option" where
  "ParseHexOctet (h # l # cs) =
     (case hex_digit h of
        None \<Rightarrow> None
      | Some hi \<Rightarrow> (case hex_digit l of
                     None \<Rightarrow> None
                   | Some lo \<Rightarrow> Some (16 * hi + lo)))"
| "ParseHexOctet cs = None"

text \<open>The number of leading one bits of an octet.\<close>

definition leading_ones :: "nat \<Rightarrow> nat" where
  "leading_ones b =
     (if b < 0x80 then 0
      else if b < 0xC0 then 1
      else if b < 0xE0 then 2
      else if b < 0xF0 then 3
      else if b < 0xF8 then 4
      else if b < 0xFC then 5
      else if b < 0xFE then 6
      else if b < 0xFF then 7
      else 8)"

text \<open>
  The inner loop of \<open>Decode\<close>: read \<open>j\<close> further escapes, returning their octets and
  the rest of the input, or \<open>None\<close> where the loop throws.
\<close>

fun continuation :: "nat \<Rightarrow> js_string \<Rightarrow> (nat list \<times> js_string) option" where
  "continuation 0 cs = Some ([], cs)"
| "continuation (Suc j) [] = None"
| "continuation (Suc j) (c # cs) =
     (if c \<noteq> 0x25 then None
      else (case ParseHexOctet cs of
              None \<Rightarrow> None
            | Some b \<Rightarrow> (case continuation j (drop 2 cs) of
                           None \<Rightarrow> None
                         | Some (bs, rest) \<Rightarrow> Some (b # bs, rest))))"

text \<open>
  The UTF-8 transformation of a lead octet with \<open>n\<close> leading ones and its continuation
  octets. The sequence is valid when every continuation octet is \<open>10xxxxxx\<close>, the
  value is not encodable in fewer octets, is no surrogate and is at most \<open>0x10FFFF\<close>.
\<close>

definition utf8_value :: "nat \<Rightarrow> nat list \<Rightarrow> nat" where
  "utf8_value b bs = foldl (\<lambda>v c. 64 * v + c mod 64) (b mod 2 ^ (7 - Suc (length bs))) bs"

definition utf8_min :: "nat \<Rightarrow> nat" where
  "utf8_min n = (if n = 2 then 0x80 else if n = 3 then 0x800 else 0x10000)"

definition utf8_code_point :: "nat \<Rightarrow> nat list \<Rightarrow> nat option" where
  "utf8_code_point b bs =
     (let v = utf8_value b bs in
      if list_all (\<lambda>c. 0x80 \<le> c \<and> c < 0xC0) bs
         \<and> utf8_min (Suc (length bs)) \<le> v
         \<and> \<not> (0xD800 \<le> v \<and> v \<le> 0xDFFF)
         \<and> v \<le> 0x10FFFF
      then Some v else None)"

definition UTF16EncodeCodePoint :: "nat \<Rightarrow> js_string" where
  "UTF16EncodeCodePoint v =
     (if v \<le> 0xFFFF then [of_nat v]
      else [of_nat ((v - 0x10000) div 0x400 + 0xD800),
            of_nat ((v - 0x10000) mod 0x400 + 0xDC00)])"

lemma continuation_length:
  "continuation j cs = Some (bs, rest) \<Longrightarrow> length rest \<le> length cs"
proof (induction j cs arbitrary: bs rest rule: continuation.induct)
  case (1 cs)
  then show ?case by simp
next
  case (2 j)
  then show ?case by simp
next
  case (3 j c cs)
  from "3.prems" obtain b bs' where
    c: "c = 0x25" and b: "ParseHexOctet cs = Some b"
    and k: "continuation j (drop 2 cs) = Some (bs', rest)"
    by (auto split: if_splits option.splits)
  from "3.IH" [OF _ b k] c have "length rest \<le> length (drop 2 cs)"
    by simp
  then show ?case by simp
qed

function Decode :: "js_string \<Rightarrow> js_error + js_string" where
  "Decode [] = Inr []"
| "Decode (c # cs) =
     (if c \<noteq> 0x25 then
        (case Decode cs of Inl e \<Rightarrow> Inl e | Inr r \<Rightarrow> Inr (c # r))
      else
        (case ParseHexOctet cs of
           None \<Rightarrow> Inl URIError
         | Some b \<Rightarrow>
             (let n = leading_ones b in
              if n = 0 then
                (case Decode (drop 2 cs) of
                   Inl e \<Rightarrow> Inl e
                 | Inr r \<Rightarrow> Inr (of_nat b # r))
              else if n = 1 \<or> 4 < n then Inl URIError
              else
                (case continuation (n - 1) (drop 2 cs) of
                   None \<Rightarrow> Inl URIError
                 | Some (bs, rest) \<Rightarrow>
                     (case utf8_code_point b bs of
                        None \<Rightarrow> Inl URIError
                      | Some v \<Rightarrow>
                          (case Decode rest of
                             Inl e \<Rightarrow> Inl e
                           | Inr r \<Rightarrow> Inr (UTF16EncodeCodePoint v @ r)))))))"
  by pat_completeness auto
termination
proof (relation "measure length")
  show "wf (measure length)" by simp
next
  fix c :: code_unit and cs
  show "(cs, c # cs) \<in> measure length" by simp
next
  fix c :: code_unit and cs
  show "(drop 2 cs, c # cs) \<in> measure length" by simp
next
  fix c :: code_unit and cs b n x bs rest
  assume "continuation (n - 1) (drop 2 cs) = Some x" and "(bs, rest) = x"
  then have "length rest \<le> length (drop 2 cs)"
    using continuation_length [of "n - 1" "drop 2 cs" bs rest] by simp
  then show "(rest, c # cs) \<in> measure length" by simp
qed

text \<open>
  \<open>decodeURIComponent(x)\<close> first converts its argument to a string; \<open>undefined\<close>
  (\<open>None\<close>) becomes the text \<open>undefined\<close>.
\<close>

definition ToString :: "js_string option \<Rightarrow> js_string" where
  "ToString v = (case v of None \<Rightarrow> js ''undefined'' | Some s \<Rightarrow> s)"

definition decodeURIComponent :: "js_string option \<Rightarrow> js_error + js_string" where
  "decodeURIComponent v = Decode (ToString v)"

subsection \<open>Case-insensitive matching of a regular expression of literal alternatives\<close>

text \<open>
  With the \<open>i\<close> flag and no \<open>u\<close> flag, two code units match when \<open>Canonicalize\<close>
  of ECMA-262 maps them to the same code unit: the upper-case image of the code unit,
  unless that image would turn a code unit from 128 on into one below 128. Upper case
  of an ASCII code unit is fixed; the Unicode upper-case image of the other code units
  (the code unit itself where the image is not one code unit long) is the parameter
  \<open>upper\<close>.
\<close>

definition ascii_upper :: "code_unit \<Rightarrow> code_unit" where
  "ascii_upper c = (if 0x61 \<le> c \<and> c \<le> 0x7A then c - 0x20 else c)"

definition ascii_lower :: "code_unit \<Rightarrow> code_unit" where
  "ascii_lower c = (if 0x41 \<le> c \<and> c \<le> 0x5A then c + 0x20 else c)"

definition Canonicalize :: "(code_unit \<Rightarrow> code_unit) \<Rightarrow> code_unit \<Rightarrow> code_unit" where
  "Canonicalize upper ch =
     (let cu = (if ch < 128 then ascii_upper ch else upper ch) in
      if 128 \<le> ch \<and> cu < 128 then ch else cu)"

text \<open>One alternative, a sequence of literal characters, matched at the front of the input.\<close>

fun match_here :: "(code_unit \<Rightarrow> code_unit) \<Rightarrow> js_string \<Rightarrow> js_string \<Rightarrow> bool" where
  "match_here upper [] s = True"
| "match_here upper (p # ps) [] = False"
| "match_here upper (p # ps) (c # cs) =
     (Canonicalize upper p = Canonicalize upper c \<and> match_here upper ps cs)"

text \<open>
  \<open>RegExp.prototype.test\<close> for a pattern \<open>/a1|a2|...|an/i\<close> without the global flag:
  the alternatives are tried at every start position, from the first to the end of the
  input.
\<close>

fun RegExp_test :: "(code_unit \<Rightarrow> code_unit) \<Rightarrow> js_string list \<Rightarrow> js_string \<Rightarrow> bool" where
  "RegExp_test upper alts [] = list_ex (\<lambda>p. match_here upper p []) alts"
| "RegExp_test upper alts (c # cs) =
     (list_ex (\<lambda>p. match_here upper p (c # cs)) alts \<or> RegExp_test upper alts cs)"

section \<open>The request helpers\<close>

text \<open>
  What the helpers read of a \<open>NextRequest\<close>: the headers, a map from the lower-case
  header name to the header's value, and of \<open>nextUrl\<close> the path name and the query
  parameters in the order of the query string.
\<close>

record NextURL =
  pathname :: js_string
  searchParams :: "(js_string \<times> js_string) list"

record NextRequest =
  headers :: "js_string \<rightharpoonup> js_string"
  nextUrl :: NextURL

text \<open>\<open>Headers.get\<close> ignores the case of the name; an absent header reads \<open>null\<close>.\<close>

definition headers_get :: "(js_string \<rightharpoonup> js_string) \<Rightarrow> js_string \<Rightarrow> js_string option" where
  "headers_get h name = h (map ascii_lower name)"

text \<open>\<open>URLSearchParams.get\<close>: the value of the first parameter of that name, or \<open>null\<close>.\<close>

definition searchParams_get :: "(js_string \<times> js_string) list \<Rightarrow> js_string \<Rightarrow> js_string option" where
  "searchParams_get ps name = map_of ps name"

text \<open>\<open>Set.prototype.has\<close> on a set of strings: \<open>null\<close> is no member.\<close>

definition has :: "js_string set \<Rightarrow> js_string option \<Rightarrow> bool" where
  "has S v = (case v of None \<Rightarrow> False | Some s \<Rightarrow> s \<in> S)"

record parsed =
  domain :: "js_string option"
  path :: js_string
  key :: js_string

text \<open>
  \<open>parse\<close>. The constant \<open>HOME_HOSTNAMES\<close> is imported from another module and is a
  parameter here.
\<close>

definition parse :: "js_string set \<Rightarrow> NextRequest \<Rightarrow> js_error + parsed" where
  "parse HOME_HOSTNAMES req =
     (let domain0 = headers_get (headers req) (js ''host'');
          domain1 = (if has HOME_HOSTNAMES domain0 then Some (js ''dewbie.vercel.app'')
                     else domain0);
          path1 = pathname (nextUrl req)
      in case decodeURIComponent (index (split 0x2F path1) 1) of
           Inl e \<Rightarrow> Inl e
         | Inr key1 \<Rightarrow> Inr \<lparr>domain = domain1, path = path1, key = key1\<rparr>)"

definition bot_patterns :: "js_string list" where
  "bot_patterns = map js [''bot'', ''google'', ''baidu'', ''bing'', ''msn'',
     ''duckduckbot'', ''teoma'', ''slurp'', ''yandex'', ''MetaInspector'']"

definition detectBot :: "(code_unit \<Rightarrow> code_unit) \<Rightarrow> NextRequest \<Rightarrow> bool" where
  "detectBot upper req =
     (let url = nextUrl req in
      if truthy (searchParams_get (searchParams url) (js ''bot'')) then True
      else (case headers_get (headers req) (js ''User-Agent'') of
              None \<Rightarrow> False
            | Some ua \<Rightarrow> if ua \<noteq> [] then RegExp_test upper bot_patterns ua else False))"

section \<open>The QR code panel\<close>

text \<open>
  The options handed to the QR renderer. Numbers of the source are exact here: the
  sizes are integers and the only arithmetic is a division by eight.
\<close>

record image_settings =
  src :: js_string
  height :: rat
  width :: rat
  excavate :: bool

record qr_options =
  value' :: js_string
  bgColor :: js_string
  fgColor :: js_string
  size' :: rat
  level :: js_string
  imageSettings :: "image_settings option"

record QRCodeSVG_props = qr_options +
  includeMargin :: bool

text \<open>The two pieces of component state of \<open>LinkQRModalHelper\<close>.\<close>

record modal_state =
  showLogo :: bool
  qrData :: qr_options

text \<open>\<open>a || b\<close> for \<open>a\<close> of type \<open>string | undefined\<close>.\<close>

definition or_else :: "js_string option \<Rightarrow> js_string \<Rightarrow> js_string" where
  "or_else a b = (case a of None \<Rightarrow> b | Some s \<Rightarrow> if s \<noteq> [] then s else b)"

text \<open>
  \<open>qrLogoUrl\<close>: the project's logo or the static logo of the page's origin;
  \<open>origin\<close> is \<open>None\<close> where there is no \<open>window\<close>. The constructor \<open>new URL\<close>
  belongs to the platform and is the parameter \<open>URL_href\<close>, which gives the \<open>href\<close> of
  a path resolved against a base or the \<open>TypeError\<close> that the constructor throws.
\<close>

definition qrLogoUrl ::
  "(js_string \<Rightarrow> js_string \<Rightarrow> js_error + js_string) \<Rightarrow> js_string option \<Rightarrow> js_string option
   \<Rightarrow> js_error + js_string" where
  "qrLogoUrl URL_href logo origin =
     (if truthy logo then Inr (ToString logo)
      else if truthy origin then URL_href (js ''/_static/logo.svg'') (ToString origin)
      else Inr (js []))"

text \<open>
  The initial value given to \<open>useState\<close> for \<open>qrData\<close>; \<open>qrDestUrl\<close> is the result
  of \<open>linkConstructor\<close>, a function of another module.
\<close>

definition initial_qrData :: "js_string \<Rightarrow> js_string \<Rightarrow> bool \<Rightarrow> qr_options" where
  "initial_qrData qrDestUrl logoUrl show_logo =
     \<lparr>value' = qrDestUrl,
      bgColor = js ''#ffffff'',
      fgColor = js ''#000000'',
      size' = 1024,
      level = js ''Q'',
      imageSettings =
        (if show_logo
         then Some \<lparr>src = logoUrl, height = 256, width = 256, excavate = True\<rparr>
         else None)\<rparr>"

text \<open>The state after the first render: \<open>showLogo\<close> starts as \<open>true\<close>.\<close>

definition mount :: "js_string \<Rightarrow> js_string \<Rightarrow> modal_state" where
  "mount qrDestUrl logoUrl =
     (let show_logo = True in
      \<lparr>showLogo = show_logo, qrData = initial_qrData qrDestUrl logoUrl show_logo\<rparr>)"

text \<open>
  The first render as a whole: it fails where \<open>qrLogoUrl\<close> throws, and otherwise the
  panel starts in the state \<open>mount\<close> with the address that \<open>qrLogoUrl\<close> has returned.
\<close>

definition first_render ::
  "(js_string \<Rightarrow> js_string \<Rightarrow> js_error + js_string) \<Rightarrow> js_string option \<Rightarrow> js_string option
   \<Rightarrow> js_string \<Rightarrow> js_error + modal_state" where
  "first_render URL_href logo origin qrDestUrl =
     (case qrLogoUrl URL_href logo origin of
        Inl e \<Rightarrow> Inl e
      | Inr logoUrl \<Rightarrow> Inr (mount qrDestUrl logoUrl))"

text \<open>
  The state changes of the component: the switch calls \<open>setShowLogo\<close>, the colour
  picker and the colour input call \<open>setQrData\<close> with the colour they report.
\<close>

datatype event =
  setShowLogo bool
| HexColorPicker_onChange js_string
| HexColorInput_onChange js_string

fun step :: "modal_state \<Rightarrow> event \<Rightarrow> modal_state" where
  "step s (setShowLogo b) = s\<lparr>showLogo := b\<rparr>"
| "step s (HexColorPicker_onChange color) = s\<lparr>qrData := (qrData s)\<lparr>fgColor := color\<rparr>\<rparr>"
| "step s (HexColorInput_onChange color) = s\<lparr>qrData := (qrData s)\<lparr>fgColor := color\<rparr>\<rparr>"

definition run :: "modal_state \<Rightarrow> event list \<Rightarrow> modal_state" where
  "run s es = foldl step s es"

text \<open>
  The properties of the on-screen \<open>QRCodeSVG\<close>. Reading \<open>height\<close> of an absent
  \<open>imageSettings\<close> raises \<open>TypeError\<close>.
\<close>

definition QRCodeSVG :: "modal_state \<Rightarrow> js_error + QRCodeSVG_props" where
  "QRCodeSVG s =
     (let q = qrData s in
      if showLogo s then
        (case imageSettings q of
           None \<Rightarrow> Inl TypeError
         | Some im \<Rightarrow>
             Inr \<lparr>value' = value' q, bgColor = bgColor q, fgColor = fgColor q,
                  size' = size' q / 8, level = level q,
                  imageSettings = Some (im\<lparr>height := height im / 8, width := width im / 8\<rparr>),
                  includeMargin = False\<rparr>)
      else
        Inr \<lparr>value' = value' q, bgColor = bgColor q, fgColor = fgColor q,
             size' = size' q / 8, level = level q,
             imageSettings = None,
             includeMargin = False\<rparr>)"

text \<open>
  The options that the SVG button hands to the renderer. Where \<open>qrData\<close> holds no
  \<open>imageSettings\<close> while the logo is shown, the source builds a descriptor holding a
  \<open>src\<close> alone; \<open>image_settings\<close> has no such value and the model leaves the descriptor
  out there. Lemma \<open>run_imageSettings\<close> shows that the component never is in such a state.
\<close>

definition svg_options :: "js_string option \<Rightarrow> modal_state \<Rightarrow> qr_options" where
  "svg_options logo s =
     (let q = qrData s in
      if showLogo s then
        q\<lparr>imageSettings :=
            (case imageSettings q of
               None \<Rightarrow> None
             | Some im \<Rightarrow>
                 Some (im\<lparr>src := or_else logo (js ''https://dewbie.vercel.app/_static/logo.svg'')\<rparr>))\<rparr>
      else q)"

text \<open>
  The hidden anchor element and the downloads that the browser has started, each with
  the address and the file name the anchor had when it was clicked.
\<close>

record anchor =
  href :: js_string
  download' :: js_string

record dom =
  anchorRef :: "anchor option"
  downloads :: "(js_string \<times> js_string) list"

definition download :: "js_string \<Rightarrow> dom \<Rightarrow> js_string \<Rightarrow> js_string \<Rightarrow> dom" where
  "download props_key d url extension =
     (case anchorRef d of
        None \<Rightarrow> d
      | Some a \<Rightarrow>
          (let a1 = a\<lparr>href := url\<rparr>;
               a2 = a1\<lparr>download' := props_key @ js ''-qrcode.'' @ extension\<rparr>
           in d\<lparr>anchorRef := Some a2, downloads := downloads d @ [(href a2, download' a2)]\<rparr>))"

text \<open>
  The click handlers of the three buttons. The renderers \<open>getQRAsSVGDataUri\<close> and
  \<open>getQRAsCanvas\<close> belong to another module and are parameters; a rejected promise is
  an \<open>Inl\<close>, and the handler then ends without calling \<open>download\<close>.
\<close>

datatype format = SVG | PNG | JPEG

fun onClick ::
  "(qr_options \<Rightarrow> js_error + js_string) \<Rightarrow> (qr_options \<Rightarrow> js_string \<Rightarrow> js_error + js_string)
   \<Rightarrow> js_string option \<Rightarrow> js_string \<Rightarrow> modal_state \<Rightarrow> dom \<Rightarrow> format \<Rightarrow> js_error + dom" where
  "onClick getQRAsSVGDataUri getQRAsCanvas logo props_key s d SVG =
     (case getQRAsSVGDataUri (svg_options logo s) of
        Inl e \<Rightarrow> Inl e
      | Inr url \<Rightarrow> Inr (download props_key d url (js ''svg'')))"
| "onClick getQRAsSVGDataUri getQRAsCanvas logo props_key s d PNG =
     (case getQRAsCanvas (qrData s) (js ''image/png'') of
        Inl e \<Rightarrow> Inl e
      | Inr url \<Rightarrow> Inr (download props_key d url (js ''png'')))"
| "onClick getQRAsSVGDataUri getQRAsCanvas logo props_key s d JPEG =
     (case getQRAsCanvas (qrData s) (js ''image/jpeg'') of
        Inl e \<Rightarrow> Inl e
      | Inr url \<Rightarrow> Inr (download props_key d url (js ''jpg'')))"

text \<open>
  The icon at the head of the panel. \<open>getApexDomain\<close> belongs to another module and is
  a parameter. The memoised callback returns \<open>null\<close> where \<open>getApexDomain\<close> throws, and
  the component takes \<open>avatarUrl\<close> and \<open>apexDomain\<close> out of the result by destructuring,
  which raises \<open>TypeError\<close> on \<open>null\<close>.
\<close>

record avatar =
  avatarUrl :: js_string
  apexDomain :: js_string

definition avatar_memo :: "(js_string \<Rightarrow> js_error + js_string) \<Rightarrow> js_string \<Rightarrow> avatar option" where
  "avatar_memo getApexDomain props_url =
     (case getApexDomain props_url of
        Inr d \<Rightarrow>
          Some \<lparr>avatarUrl = js ''https://www.google.com/s2/favicons?sz=64&domain_url='' @ d,
                apexDomain = d\<rparr>
      | Inl e \<Rightarrow> None)"

datatype icon = BlurImage js_string js_string | Logo

definition LinkQRModalHelper_icon ::
  "(js_string \<Rightarrow> js_error + js_string) \<Rightarrow> js_string \<Rightarrow> js_error + icon" where
  "LinkQRModalHelper_icon getApexDomain props_url =
     (case avatar_memo getApexDomain props_url of
        None \<Rightarrow> Inl TypeError
      | Some m \<Rightarrow>
          Inr (if avatarUrl m \<noteq> [] then BlurImage (avatarUrl m) (apexDomain m) else Logo))"

text \<open>
  The logo switch of \<open>AdvancedSettings\<close>, shown while the section is expanded: disabled
  under a tooltip that links to the upgrade page, or enabled.
\<close>

datatype logo_switch = Disabled_with_tooltip js_string | Enabled

definition logo_toggle :: "js_string option \<Rightarrow> bool \<Rightarrow> logo_switch" where
  "logo_toggle plan isApp =
     (if \<not> truthy plan \<or> plan = Some (js ''Free'')
      then Disabled_with_tooltip (if isApp then js ''/settings'' else js ''/#pricing'')
      else Enabled)"

definition AdvancedSettings :: "bool \<Rightarrow> js_string option \<Rightarrow> bool \<Rightarrow> logo_switch option" where
  "AdvancedSettings expanded plan isApp =
     (if expanded then Some (logo_toggle plan isApp) else None)"

section \<open>Notions used to state the properties, and concrete inputs\<close>

text \<open>
  \<open>contains_ci s p\<close>: the text \<open>p\<close> occurs in \<open>s\<close> when the case of the ASCII letters
  is ignored.
\<close>

definition contains_ci :: "js_string \<Rightarrow> js_string \<Rightarrow> bool" where
  "contains_ci s p = sublist (map ascii_lower p) (map ascii_lower s)"

text \<open>
  A colour as the external colour picker validates it: a number sign and three or six
  hexadecimal digits. \<open>options_ok\<close> is the invariant of the options record, and a
  \<open>valid_event\<close> is a state change whose colour, if it carries one, is valid.
\<close>

definition valid_hex_color :: "js_string \<Rightarrow> bool" where
  "valid_hex_color s =
     (case s of
        [] \<Rightarrow> False
      | c # ds \<Rightarrow> c = 0x23 \<and> (length ds = 3 \<or> length ds = 6)
                 \<and> list_all (\<lambda>d. hex_digit d \<noteq> None) ds)"

definition options_ok :: "qr_options \<Rightarrow> bool" where
  "options_ok q \<longleftrightarrow> valid_hex_color (bgColor q) \<and> valid_hex_color (fgColor q) \<and> 0 < size' q"

fun valid_event :: "event \<Rightarrow> bool" where
  "valid_event (setShowLogo b) = True"
| "valid_event (HexColorPicker_onChange color) = valid_hex_color color"
| "valid_event (HexColorInput_onChange color) = valid_hex_color color"

text \<open>Requests: \<open>/github?bot=\<close> without headers, and one sent by a crawler.\<close>

definition bot_empty_request :: NextRequest where
  "bot_empty_request =
     \<lparr>headers = Map.empty,
      nextUrl = \<lparr>pathname = js ''/github'', searchParams = [(js ''bot'', js [])]\<rparr>\<rparr>"

definition googlebot_request :: NextRequest where
  "googlebot_request =
     \<lparr>headers = [js ''user-agent'' \<mapsto> js ''Mozilla/5.0 (compatible; Googlebot/2.1)''],
      nextUrl = \<lparr>pathname = js ''/github'', searchParams = []\<rparr>\<rparr>"

text \<open>
  A set of home host names, a request to one of them for a key written in Hebrew, and a
  request to a custom domain.
\<close>

definition home_hostnames :: "js_string set" where
  "home_hostnames = {js ''dub.sh'', js ''localhost:3000''}"

definition hebrew_request :: NextRequest where
  "hebrew_request =
     \<lparr>headers = [js ''host'' \<mapsto> js ''dub.sh''],
      nextUrl = \<lparr>pathname = js ''/%D7%A9/x'', searchParams = []\<rparr>\<rparr>"

definition custom_domain_request :: NextRequest where
  "custom_domain_request =
     \<lparr>headers = [js ''host'' \<mapsto> js ''acme.com''],
      nextUrl = \<lparr>pathname = js ''/github'', searchParams = []\<rparr>\<rparr>"

text \<open>A \<open>getApexDomain\<close> that throws on a text that is no URL.\<close>

definition throwing_getApexDomain :: "js_string \<Rightarrow> js_error + js_string" where
  "throwing_getApexDomain u = (if u = js ''not a url'' then Inl TypeError else Inr u)"

text \<open>
  Renderers that stand for the external library in the examples: the data they return
  shows the logo source they were given.
\<close>

definition probe_svg :: "qr_options \<Rightarrow> js_error + js_string" where
  "probe_svg q = Inr (case imageSettings q of None \<Rightarrow> js ''no logo'' | Some im \<Rightarrow> src im)"

definition probe_canvas :: "qr_options \<Rightarrow> js_string \<Rightarrow> js_error + js_string" where
  "probe_canvas q mime =
     Inr (mime @ (case imageSettings q of None \<Rightarrow> js ''no logo'' | Some im \<Rightarrow> src im))"

text \<open>
  The panel of the link \<open>github\<close> as first rendered on a development host, in a project
  without a logo of its own, its preview, and the page with the anchor mounted.
\<close>

definition github_state :: modal_state where
  "github_state =
     mount (js ''https://dub.sh/github'') (js ''http://localhost:3000/_static/logo.svg'')"


definition mounted_dom :: dom where
  "mounted_dom = \<lparr>anchorRef = Some \<lparr>href = js [], download' = js ''github-qrcode.svg''\<rparr>,
                  downloads = []\<rparr>"

section \<open>Evaluation and auxiliary facts\<close>

lemma continuation_unfold:
  "continuation j cs =
     (if j = 0 then Some ([], cs)
      else (case cs of
              [] \<Rightarrow> None
            | c # cs' \<Rightarrow>
                if c \<noteq> 0x25 then None
                else (case ParseHexOctet cs' of
                        None \<Rightarrow> None
                      | Some b \<Rightarrow> (case continuation (j - 1) (drop 2 cs') of
                                     None \<Rightarrow> None
                                   | Some (bs, rest) \<Rightarrow> Some (b # bs, rest)))))"
  by (cases j; cases cs) (auto split: option.splits)

lemmas Decode_eval = js_def hex_digit_def leading_ones_def utf8_code_point_def utf8_value_def
  utf8_min_def UTF16EncodeCodePoint_def continuation_unfold decodeURIComponent_def ToString_def

text \<open>A text without a percent sign is decoded to itself.\<close>

lemma Decode_no_percent: "0x25 \<notin> set s \<Longrightarrow> Decode s = Inr s"
  by (induction s) auto

lemma split_not_Nil: "split sep s \<noteq> []"
  by (induction s) (auto split: list.splits)

lemma hd_split: "hd (split sep s) = takeWhile (\<lambda>c. c \<noteq> sep) s"
  using split_not_Nil [of sep]
  by (induction s) (auto split: list.splits)

lemma index_split_0:
  "index (split sep s) 0 = Some (takeWhile (\<lambda>c. c \<noteq> sep) s)"
proof -
  obtain p ps where ps: "split sep s = p # ps"
    using split_not_Nil [of sep s] by (cases "split sep s") auto
  with hd_split [of sep s] have "p = takeWhile (\<lambda>c. c \<noteq> sep) s"
    by simp
  with ps show ?thesis by simp
qed

lemma unat_ascii_upper:
  "unat (ascii_upper c) = (if 97 \<le> unat c \<and> unat c \<le> 122 then unat c - 32 else unat c)"
proof -
  have "unat (c - 0x20) = unat c - 32" if "0x61 \<le> c"
  proof -
    from that have "(0x20 :: code_unit) \<le> c"
      by (simp add: word_le_nat_alt)
    then show ?thesis by (simp add: unat_sub)
  qed
  then show ?thesis
    by (simp add: ascii_upper_def word_le_nat_alt)
qed

lemma unat_ascii_lower:
  "unat (ascii_lower c) = (if 65 \<le> unat c \<and> unat c \<le> 90 then unat c + 32 else unat c)"
proof -
  have "unat (c + 0x20) = unat c + 32" if "c \<le> 0x5A"
  proof -
    from that have "unat c + unat (0x20 :: code_unit) < 2 ^ LENGTH(16)"
      by (simp add: word_le_nat_alt)
    then show ?thesis by (simp add: unat_add_lem [THEN iffD1])
  qed
  then show ?thesis
    by (simp add: ascii_lower_def word_le_nat_alt)
qed

lemma Canonicalize_below_128:
  "c < 128 \<Longrightarrow> Canonicalize upper c = ascii_upper c"
  by (auto simp: Canonicalize_def Let_def)

text \<open>
  Against an ASCII character of the pattern, \<open>Canonicalize\<close> identifies exactly the two
  cases of an ASCII letter, whatever the upper-case images of the other code units are.
\<close>

lemma Canonicalize_ascii:
  assumes "p < 128"
  shows "(Canonicalize upper p = Canonicalize upper c) = (ascii_lower p = ascii_lower c)"
proof (cases "c < 128")
  case True
  with assms have "unat p < 128" "unat c < 128"
    by (simp_all add: word_less_nat_alt)
  then have "(ascii_upper p = ascii_upper c) = (ascii_lower p = ascii_lower c)"
    by (auto simp: word_unat_eq_iff unat_ascii_upper unat_ascii_lower)
  with True assms show ?thesis
    by (simp add: Canonicalize_below_128)
next
  case False
  with assms have u: "unat p < 128" "128 \<le> unat c"
    by (simp_all add: word_less_nat_alt)
  then have l: "ascii_lower p \<noteq> ascii_lower c"
    by (auto simp: word_unat_eq_iff unat_ascii_lower)
  from u have "unat (ascii_upper p) < 128"
    by (auto simp: unat_ascii_upper)
  then have a: "unat (Canonicalize upper p) < 128"
    using assms by (simp add: Canonicalize_below_128)
  from False have "128 \<le> unat (Canonicalize upper c)"
    by (simp add: Canonicalize_def Let_def word_less_nat_alt word_le_nat_alt)
  with a have "Canonicalize upper p \<noteq> Canonicalize upper c"
    by auto
  with l show ?thesis by simp
qed

lemma match_here_prefix:
  "list_all (\<lambda>c. c < 128) p \<Longrightarrow>
   match_here upper p s = prefix (map ascii_lower p) (map ascii_lower s)"
  by (induction upper p s rule: match_here.induct) (auto simp: Canonicalize_ascii)

lemma RegExp_test_sublist:
  "list_all (list_all (\<lambda>c. c < 128)) alts \<Longrightarrow>
   RegExp_test upper alts s
     = (\<exists>p \<in> set alts. sublist (map ascii_lower p) (map ascii_lower s))"
proof (induction s)
  case Nil
  then show ?case
    by (auto simp: list_ex_iff list_all_iff match_here_prefix)
next
  case (Cons c cs)
  then show ?case
    by (auto simp: list_ex_iff list_all_iff match_here_prefix sublist_Cons_right)
qed

lemma bot_patterns_ascii: "list_all (list_all (\<lambda>c. c < 128)) bot_patterns"
  by (simp add: bot_patterns_def js_def)

lemma bot_patterns_not_Nil: "[] \<notin> set bot_patterns"
  by (simp add: bot_patterns_def js_def)

lemma parse_hebrew:
  "parse home_hostnames hebrew_request
    = Inr \<lparr>domain = Some (js ''dewbie.vercel.app''), path = js ''/%D7%A9/x'', key = [0x5E9]\<rparr>"
  by (simp add: parse_def hebrew_request_def home_hostnames_def has_def headers_get_def
      ascii_lower_def Decode_eval)

lemma parse_custom:
  "parse home_hostnames custom_domain_request
    = Inr \<lparr>domain = Some (js ''acme.com''), path = js ''/github'', key = js ''github''\<rparr>"
  by (simp add: parse_def custom_domain_request_def home_hostnames_def has_def headers_get_def
      ascii_lower_def Decode_eval)

lemma run_snoc: "run s (es @ [e]) = step (run s es) e"
  by (simp add: run_def)

lemma step_keeps:
  "value' (qrData (step s e)) = value' (qrData s)"
  "bgColor (qrData (step s e)) = bgColor (qrData s)"
  "size' (qrData (step s e)) = size' (qrData s)"
  "level (qrData (step s e)) = level (qrData s)"
  "imageSettings (qrData (step s e)) = imageSettings (qrData s)"
  by (cases e; simp)+

lemma run_keeps:
  "value' (qrData (run s es)) = value' (qrData s)"
  "bgColor (qrData (run s es)) = bgColor (qrData s)"
  "size' (qrData (run s es)) = size' (qrData s)"
  "level (qrData (run s es)) = level (qrData s)"
  "imageSettings (qrData (run s es)) = imageSettings (qrData s)"
  by (induction es rule: rev_induct) (simp_all add: run_snoc step_keeps, simp_all add: run_def)

text \<open>Whatever the user does, \<open>qrData\<close> keeps the logo descriptor and the size it started with.\<close>

lemma run_imageSettings:
  "imageSettings (qrData (run (mount d l) es))
    = Some \<lparr>src = l, height = 256, width = 256, excavate = True\<rparr>"
  by (simp add: run_keeps mount_def initial_qrData_def)

lemma run_size: "size' (qrData (run (mount d l) es)) = 1024"
  by (simp add: run_keeps mount_def initial_qrData_def)

lemma valid_hex_initial:
  "valid_hex_color (js ''#ffffff'')" "valid_hex_color (js ''#000000'')"
  by (simp_all add: valid_hex_color_def js_def hex_digit_def)

lemma step_options_ok:
  "options_ok (qrData s) \<Longrightarrow> valid_event e \<Longrightarrow> options_ok (qrData (step s e))"
  by (cases e) (simp_all add: options_ok_def)

lemma run_options_ok:
  "options_ok (qrData s) \<Longrightarrow> list_all valid_event es \<Longrightarrow> options_ok (qrData (run s es))"
  by (induction es rule: rev_induct) (simp_all add: run_snoc step_options_ok, simp add: run_def)

section \<open>Properties of the request helpers\<close>

text \<open>
  Claim C1, as the code has it. \<open>detectBot\<close> returns true exactly when the first \<open>bot\<close>
  query parameter has a value that is not empty, or the request has a \<open>User-Agent\<close>
  header in which one of the ten bot texts occurs, the case of letters ignored; it
  returns false otherwise. A \<open>bot\<close> parameter that is present with an empty value does
  not count.
\<close>

theorem detectBot_iff:
  "detectBot upper req \<longleftrightarrow>
     (\<exists>v. searchParams_get (searchParams (nextUrl req)) (js ''bot'') = Some v \<and> v \<noteq> [])
     \<or> (\<exists>ua. headers_get (headers req) (js ''User-Agent'') = Some ua
           \<and> (\<exists>p \<in> set bot_patterns. contains_ci ua p))"
proof -
  have t: "truthy x \<longleftrightarrow> (\<exists>v. x = Some v \<and> v \<noteq> [])" for x
    by (cases x) auto
  have e: "\<not> (\<exists>p \<in> set bot_patterns. contains_ci [] p)"
    using bot_patterns_not_Nil by (auto simp: contains_ci_def)
  show ?thesis
    using e
    by (auto simp: detectBot_def Let_def t contains_ci_def
        RegExp_test_sublist [OF bot_patterns_ascii] split: option.splits)
qed

theorem detectBot_iff_witness:
  "detectBot id googlebot_request"
proof -
  have ua: "headers_get (headers googlebot_request) (js ''User-Agent'')
      = Some (js ''Mozilla/5.0 (compatible; Googlebot/2.1)'')"
    by (simp add: googlebot_request_def headers_get_def js_def ascii_lower_def)
  have p: "js ''google'' \<in> set bot_patterns"
    by (simp add: bot_patterns_def)
  have "map ascii_lower (js ''Mozilla/5.0 (compatible; Googlebot/2.1)'')
      = js ''mozilla/5.0 (compatible; '' @ map ascii_lower (js ''google'') @ js ''bot/2.1)''"
    by (simp add: js_def ascii_lower_def)
  then have "contains_ci (js ''Mozilla/5.0 (compatible; Googlebot/2.1)'') (js ''google'')"
    unfolding contains_ci_def sublist_def by blast
  with ua p show ?thesis
    using detectBot_iff [of id googlebot_request] by blast
qed

text \<open>
  The request \<open>/github?bot=\<close> has the \<open>bot\<close> parameter, and \<open>detectBot\<close> returns false
  on it.
\<close>

theorem detectBot_bot_empty_counterexample:
  "searchParams_get (searchParams (nextUrl bot_empty_request)) (js ''bot'') \<noteq> None
   \<and> \<not> detectBot id bot_empty_request"
  by (simp add: bot_empty_request_def detectBot_def searchParams_get_def headers_get_def js_def)

text \<open>
  Claim C2. The path name of a request starts with a slash. The key that \<open>parse\<close>
  returns is \<open>decodeURIComponent\<close> of the text between that slash and the next slash or
  the end of the path name, and \<open>parse\<close> throws what \<open>decodeURIComponent\<close> throws on it.
\<close>

theorem parse_key:
  assumes "pathname (nextUrl req) = 0x2F # rest"
  shows "map_sum (\<lambda>e. e) key (parse HOME_HOSTNAMES req)
    = decodeURIComponent (Some (takeWhile (\<lambda>c. c \<noteq> 0x2F) rest))"
  using assms
  by (simp add: parse_def Let_def index_split_0 split: sum.splits)

theorem parse_key_witness:
  "map_sum (\<lambda>e. e) key (parse home_hostnames hebrew_request) = Inr [0x5E9]"
proof -
  have p: "pathname (nextUrl hebrew_request) = 0x2F # js ''%D7%A9/x''"
    by (simp add: hebrew_request_def js_def)
  have "decodeURIComponent (Some (takeWhile (\<lambda>c. c \<noteq> 0x2F) (js ''%D7%A9/x''))) = Inr [0x5E9]"
    by (simp add: Decode_eval)
  with parse_key [OF p, of home_hostnames] show ?thesis by simp
qed

text \<open>
  Claim C3. \<open>parse\<close> returns whenever \<open>decodeURIComponent\<close> returns on the second
  piece of the path name, and throws what it throws otherwise. The domain that \<open>parse\<close>
  returns is \<open>dewbie.vercel.app\<close> if the \<open>Host\<close> header is one of the home host names,
  and the \<open>Host\<close> header as it came otherwise (\<open>null\<close> for a request without one).
\<close>

theorem parse_domain:
  "map_sum (\<lambda>e. e) domain (parse HOME_HOSTNAMES req) =
     (case decodeURIComponent (index (split 0x2F (pathname (nextUrl req))) 1) of
        Inl e \<Rightarrow> Inl e
      | Inr k \<Rightarrow>
          Inr (case headers_get (headers req) (js ''host'') of
                 None \<Rightarrow> None
               | Some h \<Rightarrow>
                   if h \<in> HOME_HOSTNAMES then Some (js ''dewbie.vercel.app'') else Some h))"
  by (auto simp: parse_def Let_def has_def split: sum.splits option.splits)

theorem parse_domain_witness:
  "map_sum (\<lambda>e. e) domain (parse home_hostnames hebrew_request)
     = Inr (Some (js ''dewbie.vercel.app''))
   \<and> headers_get (headers hebrew_request) (js ''host'') = Some (js ''dub.sh'')
   \<and> js ''dub.sh'' \<in> home_hostnames
   \<and> map_sum (\<lambda>e. e) domain (parse home_hostnames custom_domain_request)
     = Inr (headers_get (headers custom_domain_request) (js ''host''))
   \<and> headers_get (headers custom_domain_request) (js ''host'') = Some (js ''acme.com'')
   \<and> js ''acme.com'' \<notin> home_hostnames"
proof -
  have d1: "decodeURIComponent (index (split 0x2F (pathname (nextUrl hebrew_request))) 1)
      = Inr [0x5E9]"
    by (simp add: hebrew_request_def Decode_eval)
  have d2: "decodeURIComponent (index (split 0x2F (pathname (nextUrl custom_domain_request))) 1)
      = Inr (js ''github'')"
    by (simp add: custom_domain_request_def Decode_eval)
  have h1: "headers_get (headers hebrew_request) (js ''host'') = Some (js ''dub.sh'')"
    by (simp add: hebrew_request_def headers_get_def ascii_lower_def js_def)
  have h2: "headers_get (headers custom_domain_request) (js ''host'') = Some (js ''acme.com'')"
    by (simp add: custom_domain_request_def headers_get_def ascii_lower_def js_def)
  have m1: "js ''dub.sh'' \<in> home_hostnames" and m2: "js ''acme.com'' \<notin> home_hostnames"
    by (simp_all add: home_hostnames_def js_def)
  from parse_domain [of home_hostnames hebrew_request]
    parse_domain [of home_hostnames custom_domain_request] d1 d2 h1 h2 m1 m2
  show ?thesis by simp
qed

text \<open>
  Claim C8. \<open>parse\<close> throws \<open>URIError\<close> on every request whose path name is \<open>/%E0\<close>:
  the escape opens a UTF-8 sequence of three octets and the text ends after the first.
\<close>

theorem parse_throws_URIError:
  "parse HOME_HOSTNAMES (req\<lparr>nextUrl := (nextUrl req)\<lparr>pathname := js ''/%E0''\<rparr>\<rparr>) = Inl URIError"
  by (simp add: parse_def Decode_eval)

section \<open>Properties of the QR code panel\<close>

text \<open>
  Claim C4, what the code does. Where \<open>getApexDomain\<close> throws, rendering the panel
  raises \<open>TypeError\<close>, because the \<open>null\<close> that the handler of the exception returns
  is destructured; and on no input at all does the panel show the generic logo glyph.
\<close>

theorem icon_TypeError:
  "(getApexDomain props_url = Inl e \<longrightarrow>
      LinkQRModalHelper_icon getApexDomain props_url = Inl TypeError)
   \<and> LinkQRModalHelper_icon getApexDomain props_url \<noteq> Inr Logo"
  by (auto simp: LinkQRModalHelper_icon_def avatar_memo_def js_def split: sum.splits)

theorem icon_TypeError_witness:
  "throwing_getApexDomain (js ''not a url'') = Inl TypeError
   \<and> LinkQRModalHelper_icon throwing_getApexDomain (js ''not a url'') = Inl TypeError"
proof -
  have h: "throwing_getApexDomain (js ''not a url'') = Inl TypeError"
    by (simp add: throwing_getApexDomain_def)
  with icon_TypeError [of throwing_getApexDomain "js ''not a url''" TypeError]
  show ?thesis by simp
qed

text \<open>
  Claim C5, what the code does. In every state of the panel in which the logo is switched
  off, \<open>qrData\<close>, which the PNG and JPEG buttons hand to the renderer, still holds the
  logo descriptor of the first render; the SVG button hands over the very same record,
  logo included; only the preview is drawn without the logo.
\<close>

theorem logo_off_exports:
  assumes "\<not> showLogo (run (mount d l) es)"
  shows "imageSettings (qrData (run (mount d l) es))
           = Some \<lparr>src = l, height = 256, width = 256, excavate = True\<rparr>
       \<and> svg_options logo (run (mount d l) es) = qrData (run (mount d l) es)
       \<and> (\<exists>p. QRCodeSVG (run (mount d l) es) = Inr p \<and> imageSettings p = None)"
  using assms by (simp add: run_imageSettings svg_options_def QRCodeSVG_def Let_def)

theorem logo_off_exports_witness:
  "\<not> showLogo (run github_state [setShowLogo False])
   \<and> imageSettings (svg_options None (run github_state [setShowLogo False]))
       = Some \<lparr>src = js ''http://localhost:3000/_static/logo.svg'', height = 256, width = 256,
               excavate = True\<rparr>"
proof -
  have h: "\<not> showLogo (run (mount (js ''https://dub.sh/github'')
      (js ''http://localhost:3000/_static/logo.svg'')) [setShowLogo False])"
    by (simp add: run_def mount_def)
  from logo_off_exports [OF h, of None] h show ?thesis
    by (simp add: github_state_def)
qed

text \<open>An empty plan is falsy, so the switch treats it like an absent one.\<close>

lemma logo_toggle_empty_plan:
  "logo_toggle (Some (js [])) isApp
     = Disabled_with_tooltip (if isApp then js ''/settings'' else js ''/#pricing'')"
  by (simp add: logo_toggle_def js_def)

text \<open>
  Claim C6. A plan tier has a name, which is not the empty text. For an absent plan and
  for every plan tier, the expanded settings show the logo switch disabled under the
  upgrade tooltip exactly when the plan is absent or is \<open>Free\<close>, and enabled for every
  other tier.
\<close>

theorem logo_switch_by_plan:
  assumes "plan \<noteq> Some (js [])"
  shows "AdvancedSettings True plan isApp =
     Some (if plan = None \<or> plan = Some (js ''Free'')
           then Disabled_with_tooltip (if isApp then js ''/settings'' else js ''/#pricing'')
           else Enabled)"
  using assms by (cases plan) (auto simp: AdvancedSettings_def logo_toggle_def js_def)

theorem logo_switch_by_plan_witness:
  "Some (js ''Pro'') \<noteq> Some (js [])
   \<and> AdvancedSettings True (Some (js ''Pro'')) True = Some Enabled
   \<and> AdvancedSettings True (Some (js ''Free'')) True = Some (Disabled_with_tooltip (js ''/settings''))
   \<and> AdvancedSettings True None False = Some (Disabled_with_tooltip (js ''/#pricing''))"
proof -
  have a: "Some (js ''Pro'') \<noteq> Some (js [])" and b: "Some (js ''Free'') \<noteq> Some (js [])"
    and c: "None \<noteq> Some (js [])"
    by (simp_all add: js_def)
  from logo_switch_by_plan [OF a, of True] logo_switch_by_plan [OF b, of True]
    logo_switch_by_plan [OF c, of False] a
  show ?thesis by (simp add: js_def)
qed

text \<open>
  Claim C7, as the code has it. In every state of the panel, a click on a format button
  calls the renderer: for PNG and JPEG on \<open>qrData\<close>, for SVG on \<open>qrData\<close> in which, while
  the logo is shown, the source of the logo is replaced by the project's logo or, where
  the project has none, by the fixed address of the default logo. When the renderer has
  returned its data and the anchor is mounted, the anchor gets the data as its address
  and the key followed by \<open>-qrcode.\<close> and \<open>svg\<close>, \<open>png\<close> or \<open>jpg\<close> as its file name,
  and is clicked; when the anchor is not mounted nothing changes; when the renderer fails
  nothing is downloaded.
\<close>

theorem onClick_download:
  "(let s = run (mount dest l) es;
        svg_src = (case logo of
                     None \<Rightarrow> js ''https://dewbie.vercel.app/_static/logo.svg''
                   | Some u \<Rightarrow>
                       if u = [] then js ''https://dewbie.vercel.app/_static/logo.svg'' else u);
        svg_arg = (if showLogo s
                   then (qrData s)\<lparr>imageSettings :=
                          Some \<lparr>src = svg_src, height = 256, width = 256, excavate = True\<rparr>\<rparr>
                   else qrData s);
        rendered = (case f of
                      SVG \<Rightarrow> getQRAsSVGDataUri svg_arg
                    | PNG \<Rightarrow> getQRAsCanvas (qrData s) (js ''image/png'')
                    | JPEG \<Rightarrow> getQRAsCanvas (qrData s) (js ''image/jpeg''));
        name = props_key @ (case f of
                              SVG \<Rightarrow> js ''-qrcode.svg''
                            | PNG \<Rightarrow> js ''-qrcode.png''
                            | JPEG \<Rightarrow> js ''-qrcode.jpg'')
    in onClick getQRAsSVGDataUri getQRAsCanvas logo props_key s d f =
         (case rendered of
            Inl e \<Rightarrow> Inl e
          | Inr url \<Rightarrow>
              (case anchorRef d of
                 None \<Rightarrow> Inr d
               | Some a \<Rightarrow>
                   Inr (d\<lparr>anchorRef := Some \<lparr>href = url, download' = name\<rparr>,
                          downloads := downloads d @ [(url, name)]\<rparr>))))"
proof -
  let ?s = "run (mount dest l) es"
  have o: "svg_options logo ?s =
      (if showLogo ?s
       then (qrData ?s)\<lparr>imageSettings :=
              Some \<lparr>src = (case logo of
                             None \<Rightarrow> js ''https://dewbie.vercel.app/_static/logo.svg''
                           | Some u \<Rightarrow>
                               if u = [] then js ''https://dewbie.vercel.app/_static/logo.svg''
                               else u),
                    height = 256, width = 256, excavate = True\<rparr>\<rparr>
       else qrData ?s)"
    by (simp add: svg_options_def Let_def run_imageSettings or_else_def split: option.splits)
  show ?thesis
    unfolding Let_def
    by (cases f)
      (simp_all only: onClick.simps format.case o, auto simp: download_def js_def
        split: sum.splits option.splits)
qed

theorem onClick_download_witness:
  "onClick probe_svg probe_canvas (Some (js ''https://acme.com/logo.png'')) (js ''github'')
       github_state mounted_dom SVG =
     Inr \<lparr>anchorRef = Some \<lparr>href = js ''https://acme.com/logo.png'',
                            download' = js ''github-qrcode.svg''\<rparr>,
          downloads = [(js ''https://acme.com/logo.png'', js ''github-qrcode.svg'')]\<rparr>
   \<and> onClick probe_svg probe_canvas None (js ''github'') github_state mounted_dom PNG =
     Inr \<lparr>anchorRef = Some \<lparr>href = js ''image/pnghttp://localhost:3000/_static/logo.svg'',
                            download' = js ''github-qrcode.png''\<rparr>,
          downloads = [(js ''image/pnghttp://localhost:3000/_static/logo.svg'',
                        js ''github-qrcode.png'')]\<rparr>"
proof -
  have s: "showLogo (run (mount (js ''https://dub.sh/github'')
      (js ''http://localhost:3000/_static/logo.svg'')) [])"
    by (simp add: run_def mount_def)
  have q: "qrData (run (mount (js ''https://dub.sh/github'')
      (js ''http://localhost:3000/_static/logo.svg'')) [])
      = initial_qrData (js ''https://dub.sh/github'')
          (js ''http://localhost:3000/_static/logo.svg'') True"
    by (simp add: run_def mount_def)
  have g: "github_state = run (mount (js ''https://dub.sh/github'')
      (js ''http://localhost:3000/_static/logo.svg'')) []"
    by (simp add: github_state_def run_def)
  from onClick_download [where dest = "js ''https://dub.sh/github''"
      and l = "js ''http://localhost:3000/_static/logo.svg''" and es = "[]" and f = SVG
      and getQRAsSVGDataUri = probe_svg and getQRAsCanvas = probe_canvas
      and logo = "Some (js ''https://acme.com/logo.png'')"
      and props_key = "js ''github''" and d = mounted_dom]
  have a: "onClick probe_svg probe_canvas (Some (js ''https://acme.com/logo.png''))
       (js ''github'') github_state mounted_dom SVG =
     Inr \<lparr>anchorRef = Some \<lparr>href = js ''https://acme.com/logo.png'',
                            download' = js ''github-qrcode.svg''\<rparr>,
          downloads = [(js ''https://acme.com/logo.png'', js ''github-qrcode.svg'')]\<rparr>"
    unfolding Let_def g [symmetric]
    by (simp add: s [folded g] probe_svg_def mounted_dom_def js_def)
  from onClick_download [where dest = "js ''https://dub.sh/github''"
      and l = "js ''http://localhost:3000/_static/logo.svg''" and es = "[]" and f = PNG
      and getQRAsSVGDataUri = probe_svg and getQRAsCanvas = probe_canvas and logo = None
      and props_key = "js ''github''" and d = mounted_dom]
  have b: "onClick probe_svg probe_canvas None (js ''github'') github_state mounted_dom PNG =
     Inr \<lparr>anchorRef = Some \<lparr>href = js ''image/pnghttp://localhost:3000/_static/logo.svg'',
                            download' = js ''github-qrcode.png''\<rparr>,
          downloads = [(js ''image/pnghttp://localhost:3000/_static/logo.svg'',
                        js ''github-qrcode.png'')]\<rparr>"
    unfolding Let_def g [symmetric]
    by (simp add: q [folded g] initial_qrData_def probe_canvas_def mounted_dom_def js_def)
  from a b show ?thesis by simp
qed

text \<open>
  On a development host, in a project without a logo, the renderer of the SVG button
  returns other data on \<open>qrData\<close> than the click puts into the anchor: the click has
  called it on a record with another logo source.
\<close>

theorem onClick_svg_options_counterexample:
  "probe_svg (qrData github_state) = Inr (js ''http://localhost:3000/_static/logo.svg'')
   \<and> onClick probe_svg probe_canvas None (js ''github'') github_state mounted_dom SVG
     = Inr \<lparr>anchorRef = Some \<lparr>href = js ''https://dewbie.vercel.app/_static/logo.svg'',
                              download' = js ''github-qrcode.svg''\<rparr>,
            downloads = [(js ''https://dewbie.vercel.app/_static/logo.svg'',
                          js ''github-qrcode.svg'')]\<rparr>
   \<and> svg_options None github_state \<noteq> qrData github_state"
  by (simp add: github_state_def mount_def initial_qrData_def probe_svg_def svg_options_def
      or_else_def download_def mounted_dom_def js_def)

text \<open>
  Claim C9. The options start with the colours \<open>#ffffff\<close> and \<open>#000000\<close> and the size
  1024, which are valid colours and a positive size. Every state change keeps the
  colours valid, provided that the colour picker and the colour input report valid
  colours, and leaves the size as it is; so do all runs of the panel. The component
  itself checks nothing: it stores whatever colour it is given.
\<close>

theorem options_invariant:
  "bgColor (qrData (mount dest l)) = js ''#ffffff''
   \<and> fgColor (qrData (mount dest l)) = js ''#000000''
   \<and> size' (qrData (mount dest l)) = 1024
   \<and> options_ok (qrData (mount dest l))
   \<and> (options_ok (qrData s) \<and> valid_event e \<longrightarrow>
        options_ok (qrData (step s e)) \<and> size' (qrData (step s e)) = size' (qrData s))
   \<and> (list_all valid_event es \<longrightarrow>
        options_ok (qrData (run (mount dest l) es)) \<and> size' (qrData (run (mount dest l) es)) = 1024)
   \<and> fgColor (qrData (step s (HexColorPicker_onChange color))) = color
   \<and> fgColor (qrData (step s (HexColorInput_onChange color))) = color"
proof -
  have i: "options_ok (qrData (mount dest l))"
    by (simp add: options_ok_def mount_def initial_qrData_def valid_hex_initial)
  show ?thesis
    using i run_options_ok [OF i, of es]
    by (simp add: step_options_ok step_keeps run_size) (simp add: mount_def initial_qrData_def)
qed

theorem options_invariant_witness:
  "list_all valid_event [HexColorPicker_onChange (js ''#ff8800''), setShowLogo False,
      HexColorInput_onChange (js ''#0aF'')]
   \<and> options_ok (qrData (run github_state [HexColorPicker_onChange (js ''#ff8800''),
        setShowLogo False, HexColorInput_onChange (js ''#0aF'')]))
   \<and> fgColor (qrData (run github_state [HexColorPicker_onChange (js ''#ff8800''),
        setShowLogo False, HexColorInput_onChange (js ''#0aF'')])) = js ''#0aF''"
proof -
  let ?es = "[HexColorPicker_onChange (js ''#ff8800''), setShowLogo False,
      HexColorInput_onChange (js ''#0aF'')]"
  have h: "list_all valid_event ?es"
    by (simp add: valid_hex_color_def js_def hex_digit_def)
  have f: "fgColor (qrData (run github_state ?es)) = js ''#0aF''"
    by (simp add: run_def)
  from options_invariant [where dest = "js ''https://dub.sh/github''"
      and l = "js ''http://localhost:3000/_static/logo.svg''" and es = ?es] h f
  show ?thesis by (simp add: github_state_def)
qed



end
